theory Spec2Isabelle
  imports Complex_Main
begin

section \<open>Strings\<close>

text \<open>
  The program is \<^verbatim>\<open>haplogroup_visualization.py\<close>. Its strings are Python \<^verbatim>\<open>str\<close>
  values; a \<^typ>\<open>char\<close> of the model stands for one code point below 256.

  \<^verbatim>\<open>str.strip()\<close> and the regex class \<^verbatim>\<open>\s\<close> (on a \<^verbatim>\<open>str\<close> pattern) both use
  Python's notion of a whitespace character. Below 256 these are the code points
  9 to 13, 28 to 32, 133 and 160.
\<close>

definition py_isspace :: "char \<Rightarrow> bool" where
  "py_isspace c = (of_char c \<in> {9, 10, 11, 12, 13, 28, 29, 30, 31, 32, 133, 160 :: nat})"

definition py_strip :: "string \<Rightarrow> string" where
  "py_strip s = rev (dropWhile py_isspace (rev (dropWhile py_isspace s)))"

text \<open>\<^verbatim>\<open>p in s\<close> for strings, which is also what \<^verbatim>\<open>re.search\<close> decides for a
  pattern without metacharacters.\<close>

fun starts_with :: "string \<Rightarrow> string \<Rightarrow> bool" where
  "starts_with [] s = True"
| "starts_with (p # ps) [] = False"
| "starts_with (p # ps) (c # cs) = (p = c \<and> starts_with ps cs)"

fun contains :: "string \<Rightarrow> string \<Rightarrow> bool" where
  "contains p [] = (p = [])"
| "contains p (c # cs) = (starts_with p (c # cs) \<or> contains p cs)"

section \<open>Lineage filter (source lines 263 to 285)\<close>

text \<open>
  \<^verbatim>\<open>.str.contains("n/a|na|NaN|not|Likely", na=False, regex=True)\<close>: a case-sensitive
  search for any of the five alternatives.
\<close>

definition na_patterns :: "string list" where
  "na_patterns = [''n/a'', ''na'', ''NaN'', ''not'', ''Likely'']"

definition str_contains_na :: "string \<Rightarrow> bool" where
  "str_contains_na s = list_ex (\<lambda>p. contains p s) na_patterns"

text \<open>
  \<^verbatim>\<open>.str.replace(r"[+\/\(\)'~@\-or\s].*", "", regex=True)\<close> is \<^verbatim>\<open>re.sub\<close> on every
  cell. The character class holds the ten characters below and whitespace; the letters
  \<^verbatim>\<open>o\<close> and \<^verbatim>\<open>r\<close> are members of the class.
\<close>

definition cut_char :: "char \<Rightarrow> bool" where
  "cut_char c = (c \<in> set ''+/()'' \<or> c = CHR 0x27 \<or> c \<in> set ''~@-or'' \<or> py_isspace c)"

text \<open>
  \<^verbatim>\<open>.*\<close> is greedy and, without \<^verbatim>\<open>re.DOTALL\<close>, does not match a line feed: after
  the class character the match runs up to the next line feed or the end of the string.
  \<^verbatim>\<open>re.sub\<close> then goes on looking for the next match from where this one ended.
\<close>

definition dot_star_rest :: "string \<Rightarrow> string" where
  "dot_star_rest s = dropWhile (\<lambda>c. c \<noteq> CHR 0x0A) s"

function re_sub_cut :: "string \<Rightarrow> string" where
  "re_sub_cut [] = []"
| "re_sub_cut (c # cs) =
     (if cut_char c then re_sub_cut (dot_star_rest cs) else c # re_sub_cut cs)"
  by pat_completeness auto
termination
  by (relation "measure length") (auto simp: dot_star_rest_def intro: le_imp_less_Suc length_dropWhile_le)

text \<open>
  The rows of \<^verbatim>\<open>annotations\<close> as they stand at line 262: columns dropped and
  renamed, rows without coordinates removed, the two haplogroup columns converted to
  strings (an empty cell has become the string \<^verbatim>\<open>nan\<close>). \<^verbatim>\<open>Mean BP\<close> is a column
  of integers, \<^verbatim>\<open>Country\<close> is a string or missing. The \<^verbatim>\<open>Age\<close> column is written
  once and never read again by the program, so the rows do not carry it.
\<close>

record sample =
  Mean_BP :: int
  Country :: "string option"
  Lat :: rat
  Long :: rat

record annotation = sample +
  Y_haplogroup :: string
  mtDNA_haplogroup :: string

text \<open>A row of \<^verbatim>\<open>annotations_Y\<close> or \<^verbatim>\<open>annotations_mt\<close>: the sibling column is dropped.\<close>

record lineage = sample +
  haplogroup :: string

text \<open>Lines 264 to 267: four filters on the joint table, two per column.\<close>

definition remove_na_entries :: "annotation list \<Rightarrow> annotation list" where
  "remove_na_entries annotations =
     (let a1 = filter (\<lambda>r. \<not> str_contains_na (Y_haplogroup r)) annotations;
          a2 = filter (\<lambda>r. \<not> str_contains_na (mtDNA_haplogroup r)) a1;
          a3 = filter (\<lambda>r. py_strip (Y_haplogroup r) \<noteq> []) a2;
          a4 = filter (\<lambda>r. py_strip (mtDNA_haplogroup r) \<noteq> []) a3
      in a4)"

text \<open>Lines 270 and 271: both columns of the joint table are cleaned.\<close>

definition remove_naming_additions :: "annotation list \<Rightarrow> annotation list" where
  "remove_naming_additions annotations =
     map (\<lambda>r. r\<lparr>Y_haplogroup := re_sub_cut (Y_haplogroup r),
                mtDNA_haplogroup := re_sub_cut (mtDNA_haplogroup r)\<rparr>) annotations"

text \<open>Lines 276 and 277: \<^verbatim>\<open>drop(columns=[...])\<close>.\<close>

definition drop_mtDNA :: "annotation \<Rightarrow> lineage" where
  "drop_mtDNA r = \<lparr>Mean_BP = Mean_BP r, Country = Country r, Lat = Lat r, Long = Long r,
     haplogroup = Y_haplogroup r\<rparr>"

definition drop_Y :: "annotation \<Rightarrow> lineage" where
  "drop_Y r = \<lparr>Mean_BP = Mean_BP r, Country = Country r, Lat = Lat r, Long = Long r,
     haplogroup = mtDNA_haplogroup r\<rparr>"

text \<open>Lines 282 and 285: the rows whose code is \<^verbatim>\<open>..\<close> go, in each table on its own.\<close>

definition remove_unknowns :: "lineage list \<Rightarrow> lineage list" where
  "remove_unknowns t = filter (\<lambda>r. haplogroup r \<noteq> ''..'') t"

definition annotations_Y :: "annotation list \<Rightarrow> lineage list" where
  "annotations_Y annotations =
     remove_unknowns (map drop_mtDNA (remove_naming_additions (remove_na_entries annotations)))"

definition annotations_mt :: "annotation list \<Rightarrow> lineage list" where
  "annotations_mt annotations =
     remove_unknowns (map drop_Y (remove_naming_additions (remove_na_entries annotations)))"

text \<open>
  The words of the specification for a code that is no code: it contains one of the five
  tokens, or it is empty or only whitespace.
\<close>

definition placeholder :: "string \<Rightarrow> bool" where
  "placeholder s = (str_contains_na s \<or> py_strip s = [])"

section \<open>Era label (source lines 236 to 243)\<close>

text \<open>\<^verbatim>\<open>str\<close> of an integer: decimal digits, a minus sign before a negative number.\<close>

definition digit_char :: "nat \<Rightarrow> char" where
  "digit_char d = ''0123456789'' ! d"

fun digits :: "nat \<Rightarrow> string" where
  "digits n = (if n < 10 then [digit_char n] else digits (n div 10) @ [digit_char (n mod 10)])"

declare digits.simps [simp del]

definition py_str :: "int \<Rightarrow> string" where
  "py_str i = (if i < 0 then CHR ''-'' # digits (nat (- i)) else digits (nat i))"

text \<open>Line 236: the rows with \<^verbatim>\<open>Mean BP\<close> equal to 0 are removed.\<close>

definition remove_modern :: "('a sample_scheme) list \<Rightarrow> ('a sample_scheme) list" where
  "remove_modern annotations = filter (\<lambda>r. Mean_BP r \<noteq> 0) annotations"

text \<open>Lines 239 to 243: \<^verbatim>\<open>np.where\<close>, element by element.\<close>

definition Age :: "int \<Rightarrow> string" where
  "Age bp = (if bp \<ge> 1950 then py_str (bp - 1949) @ '' BC'' else py_str (1950 - bp) @ '' AD'')"

text \<open>The table with its new column: each remaining row beside its \<^verbatim>\<open>Age\<close> cell.\<close>

definition with_Age :: "('a sample_scheme) list \<Rightarrow> ('a sample_scheme \<times> string) list" where
  "with_Age annotations = map (\<lambda>r. (r, Age (Mean_BP r))) (remove_modern annotations)"

section \<open>Era bins (source lines 311 to 315)\<close>

definition new_bp_ranges :: "int list" where
  "new_bp_ranges = [1, 1000, 2000, 3000, 4000, 5000, 6000, 7000, 8000, 11000, 44500]"

definition bp_labels :: "string list" where
  "bp_labels = [''1-1000'', ''1001-2000'', ''2001-3000'', ''3001-4000'', ''4001-5000'',
     ''5001-6000'', ''6001-7000'', ''7001-8000'', ''8001-11000'', ''11001-44500'']"

text \<open>
  \<^verbatim>\<open>pd.cut(x, bins, labels, right=True)\<close> with its default \<^verbatim>\<open>include_lowest=False\<close>,
  for increasing bin edges: the position of a value is
  \<^verbatim>\<open>bins.searchsorted(x, side="left")\<close>, the number of edges below the value; position 0
  and position \<^verbatim>\<open>len(bins)\<close> give a missing label, position \<open>i\<close> gives
  \<^verbatim>\<open>labels[i - 1]\<close>.
\<close>

definition searchsorted_left :: "int list \<Rightarrow> int \<Rightarrow> nat" where
  "searchsorted_left bins x = length (takeWhile (\<lambda>b. b < x) bins)"

definition pd_cut :: "int list \<Rightarrow> string list \<Rightarrow> int \<Rightarrow> string option" where
  "pd_cut bins labels x =
     (let i = searchsorted_left bins x
      in if i = 0 \<or> i = length bins then None else Some (labels ! (i - 1)))"

definition BP_range_of :: "int \<Rightarrow> string option" where
  "BP_range_of bp = pd_cut new_bp_ranges bp_labels bp"

record binned = lineage +
  BP_range :: "string option"

definition add_BP_range :: "lineage \<Rightarrow> binned" where
  "add_BP_range r = \<lparr>Mean_BP = Mean_BP r, Country = Country r, Lat = Lat r, Long = Long r,
     haplogroup = haplogroup r, BP_range = BP_range_of (Mean_BP r)\<rparr>"

section \<open>Clusters and their summaries (source lines 379 to 432)\<close>

datatype error = IndexError | AttributeError | ValueError | TypeError

text \<open>Running a step that may raise over a list, in order: the first exception ends it.\<close>

fun traverse :: "('a \<Rightarrow> error + 'b) \<Rightarrow> 'a list \<Rightarrow> error + 'b list" where
  "traverse f [] = Inr []"
| "traverse f (x # xs) =
     (case f x of Inl e \<Rightarrow> Inl e
      | Inr y \<Rightarrow> (case traverse f xs of Inl e \<Rightarrow> Inl e | Inr ys \<Rightarrow> Inr (y # ys)))"

text \<open>
  \<^verbatim>\<open>drop_duplicates()\<close> and \<^verbatim>\<open>unique()\<close> keep the first occurrence of every value,
  in the order of appearance; a missing value counts as one value.
\<close>

definition drop_duplicates :: "'a list \<Rightarrow> 'a list" where
  "drop_duplicates xs = rev (remdups (rev xs))"

text \<open>Lines 379 and 380: columns 2 and 3 of the tables are \<^verbatim>\<open>Lat\<close> and \<^verbatim>\<open>Long\<close>.\<close>

definition lat_long_locations :: "('a sample_scheme) list \<Rightarrow> (rat \<times> rat) list" where
  "lat_long_locations t = drop_duplicates (map (\<lambda>r. (Lat r, Long r)) t)"

text \<open>
  \<^verbatim>\<open>KMeans(...).fit(coords)\<close> is library code working on floating-point numbers. The
  model takes its result, the vector \<^verbatim>\<open>labels_\<close> with one label for each row of
  \<^verbatim>\<open>lat_long_locations\<close>, as a parameter \<open>labels\<close>.

  Line 406: the rows of \<^verbatim>\<open>lat_long_locations\<close> with a given label.
\<close>

definition cluster_points :: "(rat \<times> rat) list \<Rightarrow> nat list \<Rightarrow> nat \<Rightarrow> (rat \<times> rat) list" where
  "cluster_points locations labels cluster_id =
     map fst (filter (\<lambda>(p, l). l = cluster_id) (zip locations labels))"

text \<open>Lines 412 to 416: the rows whose coordinate pair is one of the cluster's points.\<close>

definition cluster_subset :: "('a sample_scheme) list \<Rightarrow> (rat \<times> rat) list \<Rightarrow> ('a sample_scheme) list" where
  "cluster_subset t points = filter (\<lambda>r. (Lat r, Long r) \<in> set points) t"

text \<open>\<^verbatim>\<open>s.split(sep)\<close> for a separator of one character.\<close>

fun split_on :: "char \<Rightarrow> string \<Rightarrow> string list" where
  "split_on sep [] = [[]]"
| "split_on sep (c # cs) =
     (if c = sep then [] # split_on sep cs
      else (case split_on sep cs of [] \<Rightarrow> [[c]] | p # ps \<Rightarrow> (c # p) # ps))"

text \<open>
  \<^verbatim>\<open>int(s)\<close> for a string: whitespace around the number is dropped, one sign may come
  first, then decimal digits with single underscores allowed between two digits.
  \<open>None\<close> stands for the \<^verbatim>\<open>ValueError\<close>.
\<close>

definition is_digit :: "char \<Rightarrow> bool" where
  "is_digit c = (48 \<le> (of_char c :: nat) \<and> (of_char c :: nat) \<le> 57)"

definition digit_val :: "char \<Rightarrow> nat" where
  "digit_val c = of_char c - 48"

fun py_digits :: "nat \<Rightarrow> string \<Rightarrow> nat option" where
  "py_digits acc [] = Some acc"
| "py_digits acc (c # cs) =
     (if is_digit c then py_digits (10 * acc + digit_val c) cs
      else if c = CHR ''_'' \<and> list_ex is_digit (take 1 cs) then py_digits acc cs
      else None)"

definition py_unsigned :: "string \<Rightarrow> nat option" where
  "py_unsigned s = (if list_ex is_digit (take 1 s) then py_digits 0 s else None)"

definition py_int :: "string \<Rightarrow> int option" where
  "py_int s =
     (case py_strip s of
        [] \<Rightarrow> None
      | c # cs \<Rightarrow>
          if c = CHR ''-'' then map_option (\<lambda>n. - int n) (py_unsigned cs)
          else if c = CHR ''+'' then map_option int (py_unsigned cs)
          else map_option int (py_unsigned (c # cs)))"

text \<open>
  A cell of the \<^verbatim>\<open>BP range\<close> column is a label or missing. A missing cell is a float
  (\<^verbatim>\<open>nan\<close>), which has no method \<^verbatim>\<open>split\<close>.
\<close>

definition split_dash :: "string option \<Rightarrow> error + string list" where
  "split_dash x = (case x of None \<Rightarrow> Inl AttributeError | Some s \<Rightarrow> Inr (split_on CHR ''-'' s))"

text \<open>The sort key of lines 421 and 470: \<^verbatim>\<open>lambda x: int(x.split('-')[0])\<close>.\<close>

definition bp_key :: "string option \<Rightarrow> error + int" where
  "bp_key x =
     (case split_dash x of
        Inl e \<Rightarrow> Inl e
      | Inr parts \<Rightarrow>
          (case parts of
             [] \<Rightarrow> Inl IndexError
           | p # _ \<Rightarrow> (case py_int p of None \<Rightarrow> Inl ValueError | Some n \<Rightarrow> Inr n)))"

text \<open>
  \<^verbatim>\<open>sorted(xs, key=...)\<close> computes the key of every element first, in order, then sorts
  stably by the keys.
\<close>

definition sorted_by_bp_key :: "string option list \<Rightarrow> error + string option list" where
  "sorted_by_bp_key xs =
     (case traverse bp_key xs of
        Inl e \<Rightarrow> Inl e
      | Inr ks \<Rightarrow> Inr (map snd (sort_key fst (zip ks xs))))"

text \<open>An f-string shows a label as it is and a missing value as \<^verbatim>\<open>nan\<close>.\<close>

definition fmt :: "string option \<Rightarrow> string" where
  "fmt x = (case x of None \<Rightarrow> ''nan'' | Some s \<Rightarrow> s)"

text \<open>Lines 422 to 427.\<close>

definition cluster_range_of :: "string option list \<Rightarrow> error + string" where
  "cluster_range_of bp_ranges =
     (case bp_ranges of
        [] \<Rightarrow> Inl IndexError
      | first # _ \<Rightarrow>
          (case split_dash first of
             Inl e \<Rightarrow> Inl e
           | Inr [] \<Rightarrow> Inl IndexError
           | Inr (cluster_first_bp # _) \<Rightarrow>
               (case split_dash (last bp_ranges) of
                  Inl e \<Rightarrow> Inl e
                | Inr [] \<Rightarrow> Inl IndexError
                | Inr [_] \<Rightarrow> Inl IndexError
                | Inr (_ # cluster_last_bp # _) \<Rightarrow>
                    if cluster_first_bp = cluster_last_bp then Inr (fmt first @ '' BP'')
                    else Inr (cluster_first_bp @ ''-'' @ cluster_last_bp @ '' BP''))))"

text \<open>\<^verbatim>\<open>sep.join(xs)\<close>: every item must be a string.\<close>

fun str_join :: "string \<Rightarrow> string option list \<Rightarrow> error + string" where
  "str_join sep [] = Inr []"
| "str_join sep (None # xs) = Inl TypeError"
| "str_join sep [Some s] = Inr s"
| "str_join sep (Some s # x # xs) =
     (case str_join sep (x # xs) of Inl e \<Rightarrow> Inl e | Inr t \<Rightarrow> Inr (s @ sep @ t))"

text \<open>Lines 428 to 432. With fewer than two countries the cell itself is shown.\<close>

definition cluster_countries_of :: "string option list \<Rightarrow> error + string option" where
  "cluster_countries_of countries =
     (if length countries < 2
      then (case countries of [] \<Rightarrow> Inl IndexError | c # _ \<Rightarrow> Inr c)
      else (case str_join ''<br>'' countries of Inl e \<Rightarrow> Inl e | Inr s \<Rightarrow> Inr (Some s)))"

text \<open>What one pass of the loop body computes for the popup and the marker.\<close>

record summary =
  total_indivs :: nat
  bp_ranges :: "string option list"
  cluster_range :: string
  cluster_countries :: "string option"

definition cluster_summary :: "binned list \<Rightarrow> error + summary" where
  "cluster_summary sub =
     (case sorted_by_bp_key (drop_duplicates (map BP_range sub)) of
        Inl e \<Rightarrow> Inl e
      | Inr ranges \<Rightarrow>
          (case cluster_range_of ranges of
             Inl e \<Rightarrow> Inl e
           | Inr rng \<Rightarrow>
               (case cluster_countries_of (drop_duplicates (map Country sub)) of
                  Inl e \<Rightarrow> Inl e
                | Inr cs \<Rightarrow>
                    Inr \<lparr>total_indivs = length sub, bp_ranges = ranges,
                         cluster_range = rng, cluster_countries = cs\<rparr>)))"

text \<open>
  The loop of lines 405 to 445 (and 454 to 494): one summary for each cluster id of
  \<^verbatim>\<open>range(n_clusters)\<close>; an exception in one pass ends the program.
\<close>

definition cluster_loop :: "binned list \<Rightarrow> nat list \<Rightarrow> nat \<Rightarrow> error + summary list" where
  "cluster_loop t labels n_clusters =
     traverse (\<lambda>cluster_id.
        cluster_summary (cluster_subset t (cluster_points (lat_long_locations t) labels cluster_id)))
       [0..<n_clusters]"

section \<open>Command line (source lines 131 to 172)\<close>

text \<open>
  \<^verbatim>\<open>argparse\<close>, \<^verbatim>\<open>int\<close> and \<^verbatim>\<open>pd.read_excel\<close> are library code. The model
  takes what they make of an invocation as given: whether \<^verbatim>\<open>pd.read_excel\<close> can read
  the spreadsheet or raises; for each of the two flags, whether it is absent, whether the
  token handed to it is rejected by \<^verbatim>\<open>int\<close>, or the integer \<^verbatim>\<open>int\<close> returns;
  whether the parser raises \<^verbatim>\<open>SystemExit\<close> for another reason (an unknown option,
  a flag without a value, a second positional argument, the help option); and the text
  (usage and error message) the parser writes on its own before it raises.
\<close>

datatype flag = Absent | Invalid | Given int

record command_line =
  argv :: "string list"
  spreadsheet_readable :: bool
  cluster_Y_flag :: flag
  cluster_mt_flag :: flag
  other_usage_error :: bool
  argparse_output :: string

text \<open>
  \<^verbatim>\<open>parser.parse_args()\<close> for the parser of lines 149 to 158: a rejected command
  line raises \<^verbatim>\<open>SystemExit\<close> (here \<open>None\<close>); an absent flag takes its default value.
\<close>

definition flag_value :: "int \<Rightarrow> flag \<Rightarrow> int option" where
  "flag_value dflt f = (case f of Absent \<Rightarrow> Some dflt | Invalid \<Rightarrow> None | Given n \<Rightarrow> Some n)"

definition parse_args :: "command_line \<Rightarrow> (int \<times> int) option" where
  "parse_args cl =
     (if other_usage_error cl then None
      else (case flag_value 150 (cluster_Y_flag cl) of
              None \<Rightarrow> None
            | Some y \<Rightarrow>
                (case flag_value 350 (cluster_mt_flag cl) of
                   None \<Rightarrow> None
                 | Some mt \<Rightarrow> Some (y, mt))))"

text \<open>
  What the first part of the program ends in. It prints a message and calls
  \<^verbatim>\<open>exit()\<close>: \<open>Terminated\<close> carries the text the parser has written before, which
  is empty when the parser raised nothing, and the argument of \<^verbatim>\<open>print\<close>. Or the
  exception of \<^verbatim>\<open>pd.read_excel\<close> is caught by nobody and the interpreter ends
  the program with a traceback. Or the program goes on to the data processing, the
  clustering and the writing of \<^verbatim>\<open>map.html\<close> with the two cluster numbers.
\<close>

datatype startup = Terminated string string | Read_error | Proceed int int

definition too_many_msg :: string where
  \<open>too_many_msg = ''Error: Too many arguments. Please only provide the AADR excel annotations file and optionally requested cluster numbers.\<newline>Program terminated.''\<close>

definition wrong_file_msg :: string where
  \<open>wrong_file_msg = ''Error: Please provide the correct file ("AADR Annotations 2025.xlsx").\<newline>Program terminated''\<close>

definition not_integer_msg :: string where
  \<open>not_integer_msg = ''Error: Please provide an integer between 5 and 500 following the --cluster flags.\<newline>Program terminated''\<close>

definition range_Y_msg :: string where
  \<open>range_Y_msg = ''Error: Cluster number for Y must be between 5 and 500.\<newline>Program terminated.''\<close>

definition range_mt_msg :: string where
  \<open>range_mt_msg = ''Error: Cluster number for mt must be between 5 and 500.\<newline>Program terminated.''\<close>

text \<open>
  Lines 131 to 172. \<^verbatim>\<open>sys.argv\<close> always holds the program name, so \<open>argv\<close> is not
  empty and \<^verbatim>\<open>sys.argv[-1]\<close> is its last element. The spreadsheet is read at line
  137, after the check of the file name and before the flags are looked at. The bare
  \<^verbatim>\<open>except\<close> of line 161 also catches \<^verbatim>\<open>SystemExit\<close>.
\<close>

definition expected_file :: string where
  "expected_file = ''AADR Annotations 2025.xlsx''"

definition check_arguments :: "command_line \<Rightarrow> startup" where
  "check_arguments cl =
     (if length (argv cl) > 6 then Terminated [] too_many_msg
      else if last (argv cl) \<noteq> expected_file then Terminated [] wrong_file_msg
      else if \<not> spreadsheet_readable cl then Read_error
      else (case parse_args cl of
              None \<Rightarrow> Terminated (argparse_output cl) not_integer_msg
            | Some (cluster_Y, cluster_mt) \<Rightarrow>
                if \<not> (5 \<le> cluster_Y \<and> cluster_Y \<le> 500) then Terminated [] range_Y_msg
                else if \<not> (5 \<le> cluster_mt \<and> cluster_mt \<le> 500) then Terminated [] range_mt_msg
                else Proceed cluster_Y cluster_mt))"

text \<open>The lines a printed message takes on the terminal.\<close>

definition printed_lines :: "string \<Rightarrow> nat" where
  "printed_lines msg = Suc (length (filter (\<lambda>c. c = CHR 0x0A) msg))"

section \<open>Example tables\<close>

text \<open>Small tables on which the theorems below are tried out.\<close>

definition three_lineage_rows :: "lineage list" where
  "three_lineage_rows =
     [\<lparr>Mean_BP = 500, Country = Some ''France'', Lat = 1, Long = 1, haplogroup = ''H''\<rparr>,
      \<lparr>Mean_BP = 2500, Country = Some ''Spain'', Lat = 1, Long = 1, haplogroup = ''K''\<rparr>,
      \<lparr>Mean_BP = 2600, Country = Some ''France'', Lat = 2, Long = 2, haplogroup = ''U''\<rparr>]"

definition three_rows :: "binned list" where
  "three_rows = map add_BP_range three_lineage_rows"


definition age_one_rows :: "lineage list" where
  "age_one_rows =
     [\<lparr>Mean_BP = 500, Country = Some ''France'', Lat = 1, Long = 1, haplogroup = ''H''\<rparr>,
      \<lparr>Mean_BP = 1, Country = Some ''France'', Lat = 1, Long = 1, haplogroup = ''K''\<rparr>]"


section \<open>Properties of the code cleanup\<close>

lemma cut_char_line_feed: "cut_char (CHR 0x0A)"
  by (simp add: cut_char_def py_isspace_def)

lemma dot_star_rest_cases:
  "dot_star_rest s = [] \<or> (\<exists>t. dot_star_rest s = CHR 0x0A # t \<and> length t < length s)"
proof (induction s)
  case Nil
  show ?case by (simp add: dot_star_rest_def)
next
  case (Cons c s)
  show ?case
  proof (cases "c = CHR 0x0A")
    case True
    then show ?thesis by (simp add: dot_star_rest_def)
  next
    case False
    with Cons show ?thesis by (auto simp: dot_star_rest_def)
  qed
qed

lemma re_sub_cut_dot_star_rest: "re_sub_cut (dot_star_rest s) = []"
proof (induction "length s" arbitrary: s rule: less_induct)
  case less
  from dot_star_rest_cases [of s] show ?case
  proof
    assume "dot_star_rest s = []"
    then show ?thesis by simp
  next
    assume "\<exists>t. dot_star_rest s = CHR 0x0A # t \<and> length t < length s"
    then obtain t where t: "dot_star_rest s = CHR 0x0A # t" "length t < length s"
      by blast
    from less [OF t(2)] t(1) show ?thesis
      by (simp add: cut_char_line_feed)
  qed
qed

lemma re_sub_cut_takeWhile: "re_sub_cut s = takeWhile (\<lambda>c. \<not> cut_char c) s"
  by (induction s) (simp_all add: re_sub_cut_dot_star_rest)

text \<open>
  C4. Cleaning a code cuts it at, and including, the first character of the set
  \<^verbatim>\<open>+ / ( ) ' ~ @ - o r\<close> or whitespace: what is left is the part of the string before
  that character. A string with none of these characters is unchanged, and
  \<^verbatim>\<open>R1b1a2a1a2~\<close> becomes \<^verbatim>\<open>R1b1a2a1a2\<close>.
\<close>

theorem cleanup_truncates_at_first_cut_char:
  "(\<not> list_ex cut_char pre \<and> cut_char c \<longrightarrow> re_sub_cut (pre @ c # post) = pre) \<and>
   (\<not> list_ex cut_char s \<longrightarrow> re_sub_cut s = s) \<and>
   re_sub_cut ''R1b1a2a1a2~'' = ''R1b1a2a1a2''"
proof (intro conjI impI)
  assume "\<not> list_ex cut_char pre \<and> cut_char c"
  then show "re_sub_cut (pre @ c # post) = pre"
    by (simp add: re_sub_cut_takeWhile list_ex_iff takeWhile_append2 del: takeWhile_append)
next
  assume "\<not> list_ex cut_char s"
  then have "\<forall>x\<in>set s. \<not> cut_char x"
    by (simp add: list_ex_iff)
  then show "re_sub_cut s = s"
    by (simp add: re_sub_cut_takeWhile)
next
  show "re_sub_cut ''R1b1a2a1a2~'' = ''R1b1a2a1a2''"
    by (simp add: cut_char_def py_isspace_def dot_star_rest_def)
qed

theorem cleanup_truncates_at_first_cut_char_witness:
  "re_sub_cut (''H1'' @ CHR ''+'' # ''16189'') = ''H1'' \<and> re_sub_cut ''K2a'' = ''K2a''"
  using cleanup_truncates_at_first_cut_char [of "''H1''" "CHR ''+''" "''16189''" "''K2a''"]
  by (simp add: cut_char_def py_isspace_def)

text \<open>
  C8. Cleaning a code twice gives the same string as cleaning it once: the first pass
  leaves none of the cut characters behind.
\<close>

theorem cleanup_idempotent:
  "re_sub_cut (re_sub_cut s) = re_sub_cut s \<and> \<not> list_ex cut_char (re_sub_cut s)"
proof -
  have "\<forall>x\<in>set (takeWhile (\<lambda>c. \<not> cut_char c) s). \<not> cut_char x"
    by (auto dest: set_takeWhileD)
  then show ?thesis
    by (simp add: re_sub_cut_takeWhile list_ex_iff)
qed

section \<open>Properties of the lineage filter\<close>

lemma remove_na_entries_filter:
  "remove_na_entries rows =
     filter (\<lambda>r. \<not> placeholder (Y_haplogroup r) \<and> \<not> placeholder (mtDNA_haplogroup r)) rows"
  by (auto simp: remove_na_entries_def placeholder_def Let_def intro: filter_cong)

text \<open>
  C1, as stated, fails. The four filters of lines 264 to 267 run on the joint table, before
  it is split: a row with a good paternal code and the maternal code \<^verbatim>\<open>n/a (<2x)\<close>
  is in neither table, and likewise with the columns exchanged.
\<close>

theorem placeholder_filter_counterexample:
  "\<not> placeholder ''R1b1a2'' \<and> placeholder ''n/a (<2x)'' \<and>
   annotations_Y [\<lparr>Mean_BP = 3000, Country = Some ''France'', Lat = 1, Long = 2,
      Y_haplogroup = ''R1b1a2'', mtDNA_haplogroup = ''n/a (<2x)''\<rparr>] = [] \<and>
   annotations_mt [\<lparr>Mean_BP = 3000, Country = Some ''France'', Lat = 1, Long = 2,
      Y_haplogroup = ''n/a (female)'', mtDNA_haplogroup = ''H1''\<rparr>] = []"
  by (simp add: placeholder_def str_contains_na_def na_patterns_def py_strip_def py_isspace_def
      annotations_Y_def annotations_mt_def remove_unknowns_def remove_naming_additions_def
      remove_na_entries_def)

text \<open>
  C1, amended. A row is in the paternal table exactly when neither of its two codes is a
  placeholder and its cleaned paternal code is not \<^verbatim>\<open>..\<close>; it is in the maternal
  table exactly when neither code is a placeholder and its cleaned maternal code is not
  \<^verbatim>\<open>..\<close>. Only the \<^verbatim>\<open>..\<close> test is decided by the lineage's own column. The
  rows keep their order and carry the cleaned code.
\<close>

theorem lineage_datasets_after_joint_filter:
  "annotations_Y rows =
     map (\<lambda>r. \<lparr>Mean_BP = Mean_BP r, Country = Country r, Lat = Lat r, Long = Long r,
               haplogroup = re_sub_cut (Y_haplogroup r)\<rparr>)
       (filter (\<lambda>r. \<not> placeholder (Y_haplogroup r) \<and> \<not> placeholder (mtDNA_haplogroup r) \<and>
                    re_sub_cut (Y_haplogroup r) \<noteq> ''..'') rows) \<and>
   annotations_mt rows =
     map (\<lambda>r. \<lparr>Mean_BP = Mean_BP r, Country = Country r, Lat = Lat r, Long = Long r,
               haplogroup = re_sub_cut (mtDNA_haplogroup r)\<rparr>)
       (filter (\<lambda>r. \<not> placeholder (Y_haplogroup r) \<and> \<not> placeholder (mtDNA_haplogroup r) \<and>
                    re_sub_cut (mtDNA_haplogroup r) \<noteq> ''..'') rows)"
  by (auto simp: annotations_Y_def annotations_mt_def remove_unknowns_def
      remove_naming_additions_def remove_na_entries_filter drop_mtDNA_def drop_Y_def
      filter_map o_def intro: filter_cong)

theorem lineage_datasets_after_joint_filter_witness:
  "annotations_Y [\<lparr>Mean_BP = 3000, Country = Some ''France'', Lat = 1, Long = 2,
      Y_haplogroup = ''R1b1a2a1a2~'', mtDNA_haplogroup = ''..''\<rparr>]
   = [\<lparr>Mean_BP = 3000, Country = Some ''France'', Lat = 1, Long = 2, haplogroup = ''R1b1a2a1a2''\<rparr>] \<and>
   annotations_mt [\<lparr>Mean_BP = 3000, Country = Some ''France'', Lat = 1, Long = 2,
      Y_haplogroup = ''R1b1a2a1a2~'', mtDNA_haplogroup = ''..''\<rparr>] = []"
  using lineage_datasets_after_joint_filter [of "[\<lparr>Mean_BP = 3000, Country = Some ''France'',
      Lat = 1, Long = 2, Y_haplogroup = ''R1b1a2a1a2~'', mtDNA_haplogroup = ''..''\<rparr>]"]
  by (simp add: placeholder_def str_contains_na_def na_patterns_def py_strip_def py_isspace_def
      cut_char_def dot_star_rest_def)

section \<open>Properties of the era label\<close>

text \<open>
  C5. A row with age 1950 or more gets the label of its age minus 1949 followed by
  \<^verbatim>\<open> BC\<close>; a row with an age from 1 to 1949 gets 1950 minus its age followed by
  \<^verbatim>\<open> AD\<close>; the rows of age 0, and only these, are removed before the label is made.
\<close>

theorem era_label_derivation:
  "(\<forall>(r, a) \<in> set (with_Age rows).
      Mean_BP r \<noteq> 0 \<and>
      (1950 \<le> Mean_BP r \<longrightarrow> a = py_str (Mean_BP r - 1949) @ '' BC'') \<and>
      (1 \<le> Mean_BP r \<and> Mean_BP r \<le> 1949 \<longrightarrow> a = py_str (1950 - Mean_BP r) @ '' AD'')) \<and>
   map fst (with_Age rows) = filter (\<lambda>r. Mean_BP r \<noteq> 0) rows"
  by (auto simp: with_Age_def remove_modern_def Age_def o_def)

theorem era_label_derivation_witness:
  "with_Age [\<lparr>Mean_BP = 0, Country = None, Lat = 0, Long = 0\<rparr>,
             \<lparr>Mean_BP = 1950, Country = None, Lat = 0, Long = 0\<rparr>,
             \<lparr>Mean_BP = 1949, Country = None, Lat = 0, Long = 0\<rparr>,
             \<lparr>Mean_BP = 4449, Country = None, Lat = 0, Long = 0\<rparr>]
   = [(\<lparr>Mean_BP = 1950, Country = None, Lat = 0, Long = 0\<rparr>, ''1 BC''),
      (\<lparr>Mean_BP = 1949, Country = None, Lat = 0, Long = 0\<rparr>, ''1 AD''),
      (\<lparr>Mean_BP = 4449, Country = None, Lat = 0, Long = 0\<rparr>, ''2500 BC'')]"
  using era_label_derivation [of "[\<lparr>Mean_BP = 0, Country = None, Lat = 0, Long = 0\<rparr>,
             \<lparr>Mean_BP = 1950, Country = None, Lat = 0, Long = 0\<rparr>,
             \<lparr>Mean_BP = 1949, Country = None, Lat = 0, Long = 0\<rparr>,
             \<lparr>Mean_BP = 4449, Country = None, Lat = 0, Long = 0\<rparr>]"]
  by (simp add: with_Age_def remove_modern_def Age_def py_str_def digits.simps digit_char_def)

section \<open>Properties of the era bins\<close>

lemma BP_range_of_None_iff: "BP_range_of bp = None \<longleftrightarrow> bp \<le> 1 \<or> 44500 < bp"
  by (auto simp: BP_range_of_def pd_cut_def searchsorted_left_def new_bp_ranges_def Let_def)

lemma BP_range_of_label: "BP_range_of bp = Some l \<Longrightarrow> l \<in> set bp_labels"
  by (auto simp: BP_range_of_def pd_cut_def searchsorted_left_def new_bp_ranges_def bp_labels_def
      Let_def split: if_splits)

text \<open>
  C3. The claim gives age 1 the label \<^verbatim>\<open>1-1000\<close>. The bins are open on the left and
  the lowest edge is 1, so age 1 is left without a label; the label \<^verbatim>\<open>1-1000\<close>
  starts at age 2.
\<close>

theorem era_bin_of_age_one:
  "BP_range_of 1 = None \<and> BP_range_of 2 = Some ''1-1000''"
  by (simp add: BP_range_of_def pd_cut_def searchsorted_left_def new_bp_ranges_def bp_labels_def)

section \<open>Properties of the aggregation\<close>

lemma set_drop_duplicates: "set (drop_duplicates xs) = set xs"
  by (simp add: drop_duplicates_def)



lemma traverse_length: "traverse f xs = Inr ys \<Longrightarrow> length ys = length xs"
  by (induction xs arbitrary: ys) (auto split: sum.splits)










lemma three_rows_loop: "map_sum id (map total_indivs) (cluster_loop three_rows [0, 1] 2) = Inr [2, 1]"
  by code_simp

section \<open>Properties of the cluster summary\<close>

lemma bp_key_label: "l \<in> set bp_labels \<Longrightarrow> \<exists>n. bp_key (Some l) = Inr n"
  by (auto simp: bp_labels_def bp_key_def split_dash_def py_int_def py_strip_def py_isspace_def
      py_unsigned_def is_digit_def digit_val_def)

lemma bp_key_None: "bp_key None = Inl AttributeError"
  by (simp add: bp_key_def split_dash_def)

lemma traverse_only_error:
  assumes "\<forall>x\<in>set xs. f x = Inl e \<or> (\<exists>y. f x = Inr y)" and "\<exists>x\<in>set xs. f x = Inl e"
  shows "traverse f xs = Inl e"
  using assms
proof (induction xs)
  case Nil
  then show ?case by simp
next
  case (Cons x xs)
  show ?case
  proof (cases "f x")
    case (Inl e')
    with Cons.prems(1) show ?thesis by auto
  next
    case (Inr y)
    with Cons.prems have "\<exists>x\<in>set xs. f x = Inl e" by auto
    with Cons have "traverse f xs = Inl e" by simp
    with Inr show ?thesis by simp
  qed
qed

text \<open>The cells of a \<^verbatim>\<open>BP range\<close> column written by the binner.\<close>

lemma BP_range_cells:
  assumes "\<forall>r\<in>set sub. BP_range r = BP_range_of (Mean_BP r)"
  shows "\<forall>x\<in>set (drop_duplicates (map BP_range sub)). x = None \<or> (\<exists>l\<in>set bp_labels. x = Some l)"
proof
  fix x assume "x \<in> set (drop_duplicates (map BP_range sub))"
  then obtain r where r: "r \<in> set sub" "x = BP_range r"
    by (auto simp: set_drop_duplicates)
  with assms have x: "x = BP_range_of (Mean_BP r)" by simp
  show "x = None \<or> (\<exists>l\<in>set bp_labels. x = Some l)"
  proof (cases x)
    case None
    then show ?thesis by simp
  next
    case (Some l)
    with x have "l \<in> set bp_labels" by (simp add: BP_range_of_label)
    with Some show ?thesis by simp
  qed
qed

lemma summary_of_unbinned:
  assumes cells: "\<forall>r\<in>set sub. BP_range r = BP_range_of (Mean_BP r)"
    and bad: "\<exists>r\<in>set sub. BP_range r = None"
  shows "cluster_summary sub = Inl AttributeError"
proof -
  let ?xs = "drop_duplicates (map BP_range sub)"
  have "\<forall>x\<in>set ?xs. bp_key x = Inl AttributeError \<or> (\<exists>n. bp_key x = Inr n)"
    using BP_range_cells [OF cells] by (auto simp: bp_key_None dest: bp_key_label)
  moreover have "\<exists>x\<in>set ?xs. bp_key x = Inl AttributeError"
  proof -
    from bad obtain r where "r \<in> set sub" "BP_range r = None" by blast
    then have "None \<in> set ?xs"
      by (force simp: set_drop_duplicates)
    then show ?thesis
      using bp_key_None by blast
  qed
  ultimately have "traverse bp_key ?xs = Inl AttributeError"
    by (rule traverse_only_error)
  then show ?thesis
    by (simp add: cluster_summary_def sorted_by_bp_key_def)
qed

lemma cluster_subset_cells:
  "\<forall>r\<in>set (cluster_subset (map add_BP_range t) points). BP_range r = BP_range_of (Mean_BP r)"
  by (auto simp: cluster_subset_def add_BP_range_def)

lemma traverse_nth:
  "traverse f xs = Inr ys \<Longrightarrow> i < length xs \<Longrightarrow> f (xs ! i) = Inr (ys ! i)"
proof (induction xs arbitrary: ys i)
  case Nil
  then show ?case by simp
next
  case (Cons x xs)
  then show ?case
    by (cases i) (auto split: sum.splits)
qed

lemma cluster_loop_nth:
  assumes "cluster_loop t labels n_clusters = Inr markers" and "c < n_clusters"
  shows "cluster_summary (cluster_subset t (cluster_points (lat_long_locations t) labels c))
           = Inr (markers ! c)"
  using traverse_nth [OF assms(1) [unfolded cluster_loop_def], of c] assms(2) by simp

lemma unbinned_subset_fails:
  assumes "r \<in> set (cluster_subset (map add_BP_range t) pts)"
    and "Mean_BP r \<le> 1 \<or> 44500 < Mean_BP r"
  shows "cluster_summary (cluster_subset (map add_BP_range t) pts) = Inl AttributeError"
proof -
  have "BP_range r = BP_range_of (Mean_BP r)"
    using cluster_subset_cells assms(1) by blast
  with assms(2) have "BP_range r = None"
    by (simp add: BP_range_of_None_iff)
  with assms(1) have "\<exists>r\<in>set (cluster_subset (map add_BP_range t) pts). BP_range r = None"
    by blast
  with cluster_subset_cells show ?thesis
    by (rule summary_of_unbinned)
qed

lemma summarised_subset_binned:
  assumes "cluster_summary (cluster_subset (map add_BP_range t) pts) = Inr s"
    and "r \<in> set (cluster_subset (map add_BP_range t) pts)"
  shows "1 < Mean_BP r \<and> Mean_BP r \<le> 44500"
proof (rule ccontr)
  assume "\<not> (1 < Mean_BP r \<and> Mean_BP r \<le> 44500)"
  then have "Mean_BP r \<le> 1 \<or> 44500 < Mean_BP r"
    by auto
  with assms(2) have "cluster_summary (cluster_subset (map add_BP_range t) pts) = Inl AttributeError"
    by (rule unbinned_subset_fails)
  with assms(1) show False
    by simp
qed















text \<open>
  C10. A row gets no era label exactly when its age is 1 or less, or above 44500. If a
  cluster's subset holds such a row, the sort key is applied to the missing label and the
  summary ends with \<^verbatim>\<open>AttributeError\<close>; the row is not skipped. So a summary, and with
  it a marker, exists only for a cluster whose rows all have a label, and the loop comes to
  its end only if this holds for every cluster.
\<close>

theorem unbinned_member_breaks_summary:
  "(\<forall>r\<in>set (map add_BP_range t). BP_range r = None \<longleftrightarrow> Mean_BP r \<le> 1 \<or> 44500 < Mean_BP r) \<and>
   ((\<exists>r\<in>set (cluster_subset (map add_BP_range t) points). Mean_BP r \<le> 1 \<or> 44500 < Mean_BP r) \<longrightarrow>
      cluster_summary (cluster_subset (map add_BP_range t) points) = Inl AttributeError) \<and>
   (cluster_summary (cluster_subset (map add_BP_range t) points) = Inr s \<longrightarrow>
      (\<forall>r\<in>set (cluster_subset (map add_BP_range t) points). 1 < Mean_BP r \<and> Mean_BP r \<le> 44500)) \<and>
   (cluster_loop (map add_BP_range t) labels n_clusters = Inr markers \<longrightarrow>
      (\<forall>c<n_clusters. \<forall>r\<in>set (cluster_subset (map add_BP_range t)
            (cluster_points (lat_long_locations (map add_BP_range t)) labels c)).
         1 < Mean_BP r \<and> Mean_BP r \<le> 44500))"
proof (intro conjI impI allI ballI)
  fix r assume "r \<in> set (map add_BP_range t)"
  then show "BP_range r = None \<longleftrightarrow> Mean_BP r \<le> 1 \<or> 44500 < Mean_BP r"
    by (auto simp: add_BP_range_def BP_range_of_None_iff)
next
  assume "\<exists>r\<in>set (cluster_subset (map add_BP_range t) points). Mean_BP r \<le> 1 \<or> 44500 < Mean_BP r"
  then obtain r where "r \<in> set (cluster_subset (map add_BP_range t) points)"
    and "Mean_BP r \<le> 1 \<or> 44500 < Mean_BP r"
    by blast
  then show "cluster_summary (cluster_subset (map add_BP_range t) points) = Inl AttributeError"
    by (rule unbinned_subset_fails)
next
  fix r
  assume "cluster_summary (cluster_subset (map add_BP_range t) points) = Inr s"
    and "r \<in> set (cluster_subset (map add_BP_range t) points)"
  then have "1 < Mean_BP r \<and> Mean_BP r \<le> 44500"
    by (rule summarised_subset_binned)
  then show "1 < Mean_BP r" and "Mean_BP r \<le> 44500"
    by simp_all
next
  fix c r
  assume loop: "cluster_loop (map add_BP_range t) labels n_clusters = Inr markers"
    and c: "c < n_clusters"
    and r: "r \<in> set (cluster_subset (map add_BP_range t)
            (cluster_points (lat_long_locations (map add_BP_range t)) labels c))"
  from cluster_loop_nth [OF loop c] r have "1 < Mean_BP r \<and> Mean_BP r \<le> 44500"
    by (rule summarised_subset_binned)
  then show "1 < Mean_BP r" and "Mean_BP r \<le> 44500"
    by simp_all
qed

theorem unbinned_member_breaks_summary_witness:
  "cluster_summary (cluster_subset (map add_BP_range age_one_rows) [(1, 1)]) = Inl AttributeError \<and>
   cluster_loop (map add_BP_range age_one_rows) [0] 1 = Inl AttributeError"
proof -
  have "\<exists>r\<in>set (cluster_subset (map add_BP_range age_one_rows) [(1, 1)]).
      Mean_BP r \<le> 1 \<or> 44500 < Mean_BP r"
    by (simp add: age_one_rows_def cluster_subset_def add_BP_range_def)
  with unbinned_member_breaks_summary [of age_one_rows "[(1, 1)]"]
  have "cluster_summary (cluster_subset (map add_BP_range age_one_rows) [(1, 1)]) = Inl AttributeError"
    by blast
  moreover have "cluster_loop (map add_BP_range age_one_rows) [0] 1 = Inl AttributeError"
    by code_simp
  ultimately show ?thesis
    by simp
qed


section \<open>Properties of the command-line checks\<close>

lemma printed_lines_messages:
  "printed_lines too_many_msg = 2" "printed_lines wrong_file_msg = 2"
  "printed_lines not_integer_msg = 2" "printed_lines range_Y_msg = 2"
  "printed_lines range_mt_msg = 2"
  by (simp_all add: printed_lines_def too_many_msg_def wrong_file_msg_def not_integer_msg_def
      range_Y_msg_def range_mt_msg_def)

lemma terminated_messages:
  "check_arguments cl = Terminated out msg \<Longrightarrow>
     (out = [] \<or> out = argparse_output cl) \<and>
     (msg = too_many_msg \<or> msg = wrong_file_msg \<or> msg = not_integer_msg \<or>
      msg = range_Y_msg \<or> msg = range_mt_msg)"
  unfolding check_arguments_def
  by (simp split: if_splits option.splits prod.splits)

lemma terminated_two_lines:
  "check_arguments cl = Terminated out msg \<Longrightarrow> printed_lines msg = 2"
proof -
  assume "check_arguments cl = Terminated out msg"
  then have "msg = too_many_msg \<or> msg = wrong_file_msg \<or> msg = not_integer_msg \<or>
      msg = range_Y_msg \<or> msg = range_mt_msg"
    by (rule terminated_messages [THEN conjunct2])
  then show ?thesis
    by (elim disjE) (simp_all only: printed_lines_messages)
qed

lemma parse_args_invalid:
  "cluster_Y_flag cl = Invalid \<or> cluster_mt_flag cl = Invalid \<Longrightarrow> parse_args cl = None"
  by (auto simp: parse_args_def flag_value_def split: flag.splits)

lemma parse_args_Some:
  "parse_args cl = Some (y, mt) \<Longrightarrow>
     \<not> other_usage_error cl \<and> flag_value 150 (cluster_Y_flag cl) = Some y \<and>
     flag_value 350 (cluster_mt_flag cl) = Some mt"
  by (simp add: parse_args_def split: if_splits option.splits)

lemma parse_args_values:
  "\<not> other_usage_error cl \<Longrightarrow> flag_value 150 (cluster_Y_flag cl) = Some y \<Longrightarrow>
     flag_value 350 (cluster_mt_flag cl) = Some mt \<Longrightarrow> parse_args cl = Some (y, mt)"
  by (simp add: parse_args_def)

lemma never_proceeds_if_bad:
  assumes "cluster_Y_flag cl = Invalid \<or> cluster_mt_flag cl = Invalid \<or>
    (\<exists>n. (cluster_Y_flag cl = Given n \<or> cluster_mt_flag cl = Given n) \<and> (n < 5 \<or> 500 < n))"
  shows "check_arguments cl \<noteq> Proceed y mt"
proof
  assume p: "check_arguments cl = Proceed y mt"
  then obtain y' mt' where ps: "parse_args cl = Some (y', mt')"
    and r: "5 \<le> y'" "y' \<le> 500" "5 \<le> mt'" "mt' \<le> 500"
    unfolding check_arguments_def by (auto split: if_splits option.splits)
  from parse_args_Some [OF ps]
  have v: "flag_value 150 (cluster_Y_flag cl) = Some y'" "flag_value 350 (cluster_mt_flag cl) = Some mt'"
    by simp_all
  from assms show False
  proof (elim disjE exE conjE)
    assume "cluster_Y_flag cl = Invalid"
    with v show False by (simp add: flag_value_def)
  next
    assume "cluster_mt_flag cl = Invalid"
    with v show False by (simp add: flag_value_def)
  next
    fix n assume "cluster_Y_flag cl = Given n" "n < 5"
    with v r show False by (simp add: flag_value_def)
  next
    fix n assume "cluster_Y_flag cl = Given n" "500 < n"
    with v r show False by (simp add: flag_value_def)
  next
    fix n assume "cluster_mt_flag cl = Given n" "n < 5"
    with v r show False by (simp add: flag_value_def)
  next
    fix n assume "cluster_mt_flag cl = Given n" "500 < n"
    with v r show False by (simp add: flag_value_def)
  qed
qed

lemma read_error_iff:
  "check_arguments cl = Read_error \<longleftrightarrow>
     length (argv cl) \<le> 6 \<and> last (argv cl) = expected_file \<and> \<not> spreadsheet_readable cl"
  unfolding check_arguments_def
  by (simp split: option.splits prod.splits)

lemma proceed_values:
  assumes "check_arguments cl = Proceed y mt"
  shows "spreadsheet_readable cl \<and> flag_value 150 (cluster_Y_flag cl) = Some y \<and>
         flag_value 350 (cluster_mt_flag cl) = Some mt \<and>
         5 \<le> y \<and> y \<le> 500 \<and> 5 \<le> mt \<and> mt \<le> 500"
proof -
  from assms have "spreadsheet_readable cl" and ps: "parse_args cl = Some (y, mt)"
    and "5 \<le> y \<and> y \<le> 500 \<and> 5 \<le> mt \<and> mt \<le> 500"
    unfolding check_arguments_def by (auto split: if_splits option.splits)
  with parse_args_Some [OF ps] show ?thesis
    by simp
qed

lemma bad_flags_outcome:
  assumes bad: "cluster_Y_flag cl = Invalid \<or> cluster_mt_flag cl = Invalid \<or>
      (\<exists>n. (cluster_Y_flag cl = Given n \<or> cluster_mt_flag cl = Given n) \<and> (n < 5 \<or> 500 < n))"
  shows "(\<forall>y mt. check_arguments cl \<noteq> Proceed y mt) \<and>
          (check_arguments cl = Read_error \<or>
           (\<exists>out msg. check_arguments cl = Terminated out msg \<and> printed_lines msg = 2 \<and>
              (out = [] \<or> out = argparse_output cl)))"
proof
  show np: "\<forall>y mt. check_arguments cl \<noteq> Proceed y mt"
    using never_proceeds_if_bad [OF bad] by blast
  show "check_arguments cl = Read_error \<or>
         (\<exists>out msg. check_arguments cl = Terminated out msg \<and> printed_lines msg = 2 \<and>
            (out = [] \<or> out = argparse_output cl))"
  proof (cases "check_arguments cl")
    case (Terminated out msg)
    with terminated_messages [of cl out msg] terminated_two_lines [of cl out msg]
    show ?thesis by simp
  next
    case Read_error
    then show ?thesis by simp
  next
    case (Proceed y' mt')
    with np show ?thesis by simp
  qed
qed

lemma checks_passed:
  assumes "length (argv cl) \<le> 6 \<and> last (argv cl) = expected_file \<and> spreadsheet_readable cl"
  shows "check_arguments cl =
     (case parse_args cl of
        None \<Rightarrow> Terminated (argparse_output cl) not_integer_msg
      | Some (cluster_Y, cluster_mt) \<Rightarrow>
          if \<not> (5 \<le> cluster_Y \<and> cluster_Y \<le> 500) then Terminated [] range_Y_msg
          else if \<not> (5 \<le> cluster_mt \<and> cluster_mt \<le> 500) then Terminated [] range_mt_msg
          else Proceed cluster_Y cluster_mt)"
proof -
  from assms have "\<not> length (argv cl) > 6" "\<not> last (argv cl) \<noteq> expected_file"
    "\<not> \<not> spreadsheet_readable cl"
    by simp_all
  then show ?thesis
    unfolding check_arguments_def by (simp only: if_False)
qed

lemma invalid_token_outcome:
  assumes "length (argv cl) \<le> 6 \<and> last (argv cl) = expected_file \<and> spreadsheet_readable cl"
    and "cluster_Y_flag cl = Invalid \<or> cluster_mt_flag cl = Invalid"
  shows "check_arguments cl = Terminated (argparse_output cl) not_integer_msg"
  by (simp add: checks_passed [OF assms(1)] parse_args_invalid [OF assms(2)])

lemma range_Y_outcome:
  assumes "length (argv cl) \<le> 6 \<and> last (argv cl) = expected_file \<and> spreadsheet_readable cl"
    and "\<not> other_usage_error cl \<and> cluster_Y_flag cl = Given n \<and> (n < 5 \<or> 500 < n) \<and>
       cluster_mt_flag cl \<noteq> Invalid"
  shows "check_arguments cl = Terminated [] range_Y_msg"
proof -
  from assms(2) obtain mt' where "flag_value 350 (cluster_mt_flag cl) = Some mt'"
    by (cases "cluster_mt_flag cl") (simp_all add: flag_value_def)
  moreover from assms(2) have "flag_value 150 (cluster_Y_flag cl) = Some n"
    by (simp add: flag_value_def)
  ultimately have "parse_args cl = Some (n, mt')"
    using assms(2) by (simp add: parse_args_values)
  moreover from assms(2) have "\<not> (5 \<le> n \<and> n \<le> 500)"
    by auto
  ultimately show ?thesis
    by (simp add: checks_passed [OF assms(1)])
qed

lemma range_mt_outcome:
  assumes "length (argv cl) \<le> 6 \<and> last (argv cl) = expected_file \<and> spreadsheet_readable cl"
    and "\<not> other_usage_error cl \<and> flag_value 150 (cluster_Y_flag cl) = Some k \<and> 5 \<le> k \<and> k \<le> 500 \<and>
       cluster_mt_flag cl = Given n \<and> (n < 5 \<or> 500 < n)"
  shows "check_arguments cl = Terminated [] range_mt_msg"
proof -
  from assms(2) have "flag_value 350 (cluster_mt_flag cl) = Some n"
    by (simp add: flag_value_def)
  with assms(2) have "parse_args cl = Some (k, n)"
    by (simp add: parse_args_values)
  moreover from assms(2) have "\<not> (5 \<le> n \<and> n \<le> 500)" "5 \<le> k \<and> k \<le> 500"
    by auto
  ultimately show ?thesis
    by (simp add: checks_passed [OF assms(1)])
qed

lemma defaults_outcome:
  assumes "length (argv cl) \<le> 6 \<and> last (argv cl) = expected_file \<and> spreadsheet_readable cl"
    and "\<not> other_usage_error cl \<and> cluster_Y_flag cl = Absent \<and> cluster_mt_flag cl = Absent"
  shows "check_arguments cl = Proceed 150 350"
proof -
  from assms(2) have "parse_args cl = Some (150, 350)"
    by (simp add: parse_args_values flag_value_def)
  then show ?thesis
    by (simp add: checks_passed [OF assms(1)])
qed

lemma proceed_outcome:
  assumes "check_arguments cl = Proceed y mt"
  shows "spreadsheet_readable cl \<and>
      (cluster_Y_flag cl = Absent \<longrightarrow> y = 150) \<and> (cluster_mt_flag cl = Absent \<longrightarrow> mt = 350) \<and>
      5 \<le> y \<and> y \<le> 500 \<and> 5 \<le> mt \<and> mt \<le> 500"
  using proceed_values [OF assms] by (auto simp: flag_value_def)

text \<open>
  C9, as stated, fails: the message printed for a cluster number out of range takes two
  lines (the error sentence, then \<^verbatim>\<open>Program terminated.\<close>), not one; and with a
  spreadsheet that cannot be read the program prints no message of its own at all, since
  \<^verbatim>\<open>pd.read_excel\<close> raises before the flags are looked at.
\<close>

theorem one_line_diagnostic_counterexample:
  "check_arguments \<lparr>argv = [''haplogroup_visualization.py'', ''--cluster_Y'', ''3'',
        ''AADR Annotations 2025.xlsx''], spreadsheet_readable = True,
      cluster_Y_flag = Given 3, cluster_mt_flag = Absent, other_usage_error = False,
      argparse_output = []\<rparr>
     = Terminated [] range_Y_msg \<and>
   printed_lines range_Y_msg = 2 \<and>
   check_arguments \<lparr>argv = [''haplogroup_visualization.py'', ''--cluster_Y'', ''3'',
        ''AADR Annotations 2025.xlsx''], spreadsheet_readable = False,
      cluster_Y_flag = Given 3, cluster_mt_flag = Absent, other_usage_error = False,
      argparse_output = []\<rparr>
     = Read_error"
  by (simp add: check_arguments_def parse_args_def flag_value_def printed_lines_messages
      expected_file_def)

text \<open>
  C9, amended. When the integer given to \<^verbatim>\<open>--cluster_Y\<close> or \<^verbatim>\<open>--cluster_mt\<close> lies
  outside 5 to 500, or the token after one of the flags is no integer, the program never
  goes on to the clustering and writes no map. It ends with the uncaught exception of
  \<^verbatim>\<open>pd.read_excel\<close> exactly when the argument count and the file name pass and the
  spreadsheet cannot be read; otherwise it prints a message of two lines and terminates,
  and only the parser's own text can come before that message. With the first checks
  passed and the spreadsheet read, a token that is no integer gives the parser's text
  followed by the two lines of the integer message, and a number out of range gives the
  two lines of the range message of its flag and nothing else. When the program goes on,
  the spreadsheet was read, an absent flag stands for 150 (Y) or 350 (mt), and both
  cluster numbers lie between 5 and 500; with both flags absent and everything else
  accepted it goes on with 150 and 350.
\<close>

theorem invalid_cluster_numbers_rejected:
  "(cluster_Y_flag cl = Invalid \<or> cluster_mt_flag cl = Invalid \<or>
    (\<exists>n. (cluster_Y_flag cl = Given n \<or> cluster_mt_flag cl = Given n) \<and> (n < 5 \<or> 500 < n))
      \<longrightarrow> (\<forall>y mt. check_arguments cl \<noteq> Proceed y mt) \<and>
          (check_arguments cl = Read_error \<or>
           (\<exists>out msg. check_arguments cl = Terminated out msg \<and> printed_lines msg = 2 \<and>
              (out = [] \<or> out = argparse_output cl)))) \<and>
   (check_arguments cl = Read_error \<longleftrightarrow>
      length (argv cl) \<le> 6 \<and> last (argv cl) = expected_file \<and> \<not> spreadsheet_readable cl) \<and>
   (length (argv cl) \<le> 6 \<and> last (argv cl) = expected_file \<and> spreadsheet_readable cl \<longrightarrow>
      (cluster_Y_flag cl = Invalid \<or> cluster_mt_flag cl = Invalid \<longrightarrow>
         check_arguments cl = Terminated (argparse_output cl) not_integer_msg) \<and>
      (\<not> other_usage_error cl \<and> cluster_Y_flag cl = Given n \<and> (n < 5 \<or> 500 < n) \<and>
       cluster_mt_flag cl \<noteq> Invalid \<longrightarrow>
         check_arguments cl = Terminated [] range_Y_msg) \<and>
      (\<not> other_usage_error cl \<and> flag_value 150 (cluster_Y_flag cl) = Some k \<and> 5 \<le> k \<and> k \<le> 500 \<and>
       cluster_mt_flag cl = Given n \<and> (n < 5 \<or> 500 < n) \<longrightarrow>
         check_arguments cl = Terminated [] range_mt_msg) \<and>
      (\<not> other_usage_error cl \<and> cluster_Y_flag cl = Absent \<and> cluster_mt_flag cl = Absent \<longrightarrow>
         check_arguments cl = Proceed 150 350)) \<and>
   printed_lines not_integer_msg = 2 \<and> printed_lines range_Y_msg = 2 \<and>
   printed_lines range_mt_msg = 2 \<and>
   (check_arguments cl = Proceed y mt \<longrightarrow>
      spreadsheet_readable cl \<and>
      (cluster_Y_flag cl = Absent \<longrightarrow> y = 150) \<and> (cluster_mt_flag cl = Absent \<longrightarrow> mt = 350) \<and>
      5 \<le> y \<and> y \<le> 500 \<and> 5 \<le> mt \<and> mt \<le> 500)"
  (is "?bad \<and> ?read \<and> ?passed \<and> ?l1 \<and> ?l2 \<and> ?l3 \<and> ?go")
proof -
  have "?bad"
    by (rule impI) (rule bad_flags_outcome)
  moreover have "?read"
    by (rule read_error_iff)
  moreover have "?passed"
    apply (rule impI)
    apply (intro conjI impI)
       apply (erule (1) invalid_token_outcome)
      apply (erule (1) range_Y_outcome)
     apply (erule (1) range_mt_outcome)
    apply (erule (1) defaults_outcome)
    done
  moreover have "?l1" and "?l2" and "?l3"
    by (rule printed_lines_messages)+
  moreover have "?go"
    by (rule impI) (erule proceed_outcome)
  ultimately show ?thesis
    by (intro conjI)
qed

theorem invalid_cluster_numbers_rejected_witness:
  "check_arguments \<lparr>argv = [''haplogroup_visualization.py'', ''--cluster_mt'', ''abc'',
        ''AADR Annotations 2025.xlsx''], spreadsheet_readable = True,
      cluster_Y_flag = Absent, cluster_mt_flag = Invalid, other_usage_error = False,
      argparse_output = ''usage''\<rparr>
     = Terminated ''usage'' not_integer_msg \<and>
   check_arguments \<lparr>argv = [''haplogroup_visualization.py'', ''AADR Annotations 2025.xlsx''],
      spreadsheet_readable = True,
      cluster_Y_flag = Absent, cluster_mt_flag = Absent, other_usage_error = False,
      argparse_output = []\<rparr>
     = Proceed 150 350"
proof
  let ?bad = "\<lparr>argv = [''haplogroup_visualization.py'', ''--cluster_mt'', ''abc'',
        ''AADR Annotations 2025.xlsx''], spreadsheet_readable = True,
      cluster_Y_flag = Absent, cluster_mt_flag = Invalid, other_usage_error = False,
      argparse_output = ''usage''\<rparr>"
  have pre: "length (argv ?bad) \<le> 6 \<and> last (argv ?bad) = expected_file \<and> spreadsheet_readable ?bad"
    by (simp add: expected_file_def)
  have inv: "cluster_Y_flag ?bad = Invalid \<or> cluster_mt_flag ?bad = Invalid"
    by simp
  note passed = conjunct1 [OF conjunct2 [OF conjunct2 [OF invalid_cluster_numbers_rejected [of ?bad]]]]
  from mp [OF conjunct1 [OF mp [OF passed pre]] inv]
  show "check_arguments ?bad = Terminated ''usage'' not_integer_msg"
    by simp
next
  let ?ok = "\<lparr>argv = [''haplogroup_visualization.py'', ''AADR Annotations 2025.xlsx''],
      spreadsheet_readable = True,
      cluster_Y_flag = Absent, cluster_mt_flag = Absent, other_usage_error = False,
      argparse_output = []\<rparr>"
  have pre: "length (argv ?ok) \<le> 6 \<and> last (argv ?ok) = expected_file \<and> spreadsheet_readable ?ok"
    by (simp add: expected_file_def)
  have ab: "\<not> other_usage_error ?ok \<and> cluster_Y_flag ?ok = Absent \<and> cluster_mt_flag ?ok = Absent"
    by simp
  note passed = conjunct1 [OF conjunct2 [OF conjunct2 [OF invalid_cluster_numbers_rejected [of ?ok]]]]
  from mp [OF conjunct2 [OF conjunct2 [OF conjunct2 [OF mp [OF passed pre]]]] ab]
  show "check_arguments ?ok = Proceed 150 350" .
qed


end
